theory Spec2Isabelle
  imports Complex_Main "HOL-Library.Multiset" "HOL-Library.Char_ord" "HOL-Library.List_Lexorder"
begin

section \<open>Values, rows and errors\<close>

text \<open>
  The module \<^verbatim>\<open>common_ephys.py\<close> handles rows of database tables the way DataJoint and
  numpy hand them over: as dictionaries (or structured-array entries) that are indexed by
  field name. A row is therefore an association list from field names to dynamically typed
  values; the order of the pairs is the order of the fields.
\<close>

datatype val = IntV int | StrV string | FloatV real | ArrayV "real list" | NullV

type_synonym row = "(string \<times> val) list"

text \<open>
  Every exception the modelled code can raise is a value: a field that a row (or the dtype
  of a structured array) does not have, a missing dictionary key, an index out of range, an
  operation on a value of the wrong type, a \<^verbatim>\<open>fetch1\<close> that does not find exactly one row
  (with the number of rows found), an insert that meets an existing primary key under
  the default duplicate policy, an attribute that an object does not have, and a value
  that an operation rejects.
\<close>

datatype error =
    Missing_field string
  | KeyError string
  | IndexError
  | TypeError
  | Fetch1_error nat
  | Duplicate_entry
  | AttributeError string
  | ValueError

section \<open>Keyed reconciliation\<close>

text \<open>
  Modelled from the spec: the keyed reconciliation function \<^verbatim>\<open>reconcile\<close>, which the module
  imports as \<^verbatim>\<open>dj_replace\<close> from \<^verbatim>\<open>dj_helper_fn\<close>; that file is missing from the sources
  at hand, so the definitions of this section follow section 4.1 of the specification:
  the output has one record per existing record, in the same order; a record whose key
  appears in the update pairs has the value field overwritten with the paired value, the
  last pair winning when several pairs carry the same key; any other record is copied.
  The function is pure. It fails, rather than adding a field, when it would have to
  overwrite a value field that the record does not have.
\<close>

primrec set_field :: "string \<Rightarrow> val \<Rightarrow> row \<Rightarrow> row" where
  "set_field f v [] = []"
| "set_field f v (p # ps) = (if fst p = f then (f, v) # ps else p # set_field f v ps)"

primrec paired_value :: "val \<Rightarrow> (val \<times> val) list \<Rightarrow> val option" where
  "paired_value k [] = None"
| "paired_value k (u # us) =
     (case paired_value k us of
        Some x \<Rightarrow> Some x
      | None \<Rightarrow> if fst u = k then Some (snd u) else None)"

definition reconcile_record :: "(val \<times> val) list \<Rightarrow> string \<Rightarrow> string \<Rightarrow> row \<Rightarrow> error + row" where
  "reconcile_record updates key_field value_field r =
     (case map_of r key_field of
        None \<Rightarrow> Inr r
      | Some k \<Rightarrow>
          (case paired_value k updates of
             None \<Rightarrow> Inr r
           | Some x \<Rightarrow>
               if map_of r value_field = None then Inl (Missing_field value_field)
               else Inr (set_field value_field x r)))"

primrec reconcile :: "row list \<Rightarrow> (val \<times> val) list \<Rightarrow> string \<Rightarrow> string \<Rightarrow> error + row list" where
  "reconcile [] updates key_field value_field = Inr []"
| "reconcile (r # rs) updates key_field value_field =
     (case reconcile_record updates key_field value_field r of
        Inl e \<Rightarrow> Inl e
      | Inr r' \<Rightarrow>
          (case reconcile rs updates key_field value_field of
             Inl e \<Rightarrow> Inl e
           | Inr rs' \<Rightarrow> Inr (r' # rs')))"

text \<open>The key values of a collection, one entry per record (\<open>None\<close> for a record without the key field).\<close>

definition key_values :: "string \<Rightarrow> row list \<Rightarrow> val option list" where
  "key_values key_field rs = map (\<lambda>r. map_of r key_field) rs"

text \<open>The three-record collection of the specification's scenarios.\<close>

definition scenario_E :: "row list" where
  "scenario_E =
     [[(''id'', IntV 1), (''val'', StrV ''a'')],
      [(''id'', IntV 2), (''val'', StrV ''b'')],
      [(''id'', IntV 3), (''val'', StrV ''c'')]]"

section \<open>The record store\<close>

text \<open>
  The tables of the module, and the tables of sibling modules that it queries
  (\<open>BrainRegion\<close>, \<open>IntervalList\<close>, \<open>FirFilter\<close>). The store itself is DataJoint, an external
  collaborator; the model keeps what the module relies on: a table is a list of rows,
  rows are identified by their primary key, a restriction selects by attribute equality,
  an insert fills in declared defaults and resolves a primary-key conflict by the policy
  that the call passes.
\<close>

datatype table =
    ElectrodeConfig | ElectrodeGroup | Electrode | ElectrodeSortingInfo
  | SpikeSorter | SpikeSorterParameters | Unit | Raw | LFPElectrode | LFP
  | BrainRegion | IntervalList | FirFilter

text \<open>
  The primary keys, from the \<^verbatim>\<open>definition\<close> strings: \<^verbatim>\<open>-> Session\<close> contributes
  \<^verbatim>\<open>nwb_file_name\<close> (the master row that \<^verbatim>\<open>ElectrodeConfig.make\<close> inserts has that one
  field). The keys of the three sibling tables are the attributes by which the module
  addresses their rows.
\<close>

fun primary_key :: "table \<Rightarrow> string list" where
  "primary_key ElectrodeConfig = [''nwb_file_name'']"
| "primary_key ElectrodeGroup = [''nwb_file_name'', ''electrode_group_name'']"
| "primary_key Electrode = [''nwb_file_name'', ''electrode_id'']"
| "primary_key ElectrodeSortingInfo = [''nwb_file_name'', ''electrode_id'']"
| "primary_key SpikeSorter = [''sorter_name'']"
| "primary_key SpikeSorterParameters = [''sorter_name'', ''parameter_set_name'']"
| "primary_key Unit = [''nwb_file_name'', ''unit_id'']"
| "primary_key Raw = [''nwb_file_name'']"
| "primary_key LFPElectrode = [''nwb_file_name'', ''electrode_id'']"
| "primary_key LFP = [''nwb_file_name'', ''electrode_id'']"
| "primary_key BrainRegion = [''region_id'']"
| "primary_key IntervalList = [''nwb_file_name'', ''interval_list_name'']"
| "primary_key FirFilter = [''filter_name'', ''filter_sampling_rate'']"

text \<open>The attributes that a \<^verbatim>\<open>definition\<close> string declares with a default value.\<close>

fun defaults :: "table \<Rightarrow> row" where
  "defaults Electrode =
     [(''name'', StrV []), (''original_reference_electrode'', IntV (- 1)),
      (''x'', NullV), (''y'', NullV), (''z'', NullV), (''impedance'', NullV),
      (''x_warped'', NullV), (''y_warped'', NullV), (''z_warped'', NullV)]"
| "defaults ElectrodeSortingInfo =
     [(''sort_group'', IntV (- 1)), (''reference_electrode'', IntV (- 1))]"
| "defaults t = []"

datatype policy = Default_policy | Skip_duplicates | Replace

text \<open>
  What an operation does is recorded, in order, in the store's list of events: the reads
  (with the rows read), the calls of the reconciliation function (with input and result),
  the inserts (with the rows and the duplicate policy of the call), the deletes, and the
  messages and dictionaries printed for the operator, and the file operations that the
  module asks of its collaborators (the operation and the name of the file).
\<close>

datatype event =
    Fetch table row "row list"
  | Reconcile "row list" "(val \<times> val) list" string string "error + row list"
  | Insert table "row list" policy
  | Delete table row
  | Print string
  | Print_dict row
  | File_event string string

record db =
  tables :: "table \<Rightarrow> row list"
  events :: "event list"

definition events_of :: "db \<Rightarrow> db \<Rightarrow> event list" where
  "events_of s s' = drop (length (events s)) (events s')"

text \<open>
  A restriction \<^verbatim>\<open>table & {field: value, ...}\<close> keeps the rows that agree with the condition
  on every attribute they have; DataJoint ignores a condition on an attribute that the
  table does not have.
\<close>

definition matches :: "row \<Rightarrow> row \<Rightarrow> bool" where
  "matches cond r = list_all (\<lambda>(f, v). case map_of r f of None \<Rightarrow> True | Some w \<Rightarrow> w = v) cond"

definition fetch :: "table \<Rightarrow> row \<Rightarrow> db \<Rightarrow> row list \<times> db" where
  "fetch t cond s =
     (let rs = filter (matches cond) (tables s t)
      in (rs, s\<lparr>events := events s @ [Fetch t cond rs]\<rparr>))"

definition key_of :: "table \<Rightarrow> row \<Rightarrow> val option list" where
  "key_of t r = map (map_of r) (primary_key t)"

definition with_defaults :: "table \<Rightarrow> row \<Rightarrow> row" where
  "with_defaults t r = r @ filter (\<lambda>(f, v). map_of r f = None) (defaults t)"

primrec replace_row :: "table \<Rightarrow> row \<Rightarrow> row list \<Rightarrow> row list" where
  "replace_row t r [] = [r]"
| "replace_row t r (x # xs) = (if key_of t x = key_of t r then r # xs else x # replace_row t r xs)"

definition store_row :: "table \<Rightarrow> policy \<Rightarrow> row \<Rightarrow> row list \<Rightarrow> error + row list" where
  "store_row t p r rows =
     (if key_of t r \<in> set (map (key_of t) rows)
      then (case p of
              Default_policy \<Rightarrow> Inl Duplicate_entry
            | Skip_duplicates \<Rightarrow> Inr rows
            | Replace \<Rightarrow> Inr (replace_row t r rows))
      else Inr (rows @ [r]))"

primrec store_rows :: "table \<Rightarrow> policy \<Rightarrow> row list \<Rightarrow> row list \<Rightarrow> error + row list" where
  "store_rows t p [] rows = Inr rows"
| "store_rows t p (r # rs) rows =
     (case store_row t p (with_defaults t r) rows of
        Inl e \<Rightarrow> Inl e
      | Inr rows' \<Rightarrow> store_rows t p rs rows')"

text \<open>
  \<^verbatim>\<open>table.insert(rows, ...)\<close>: the call is recorded, then the rows are stored; a batch that
  fails leaves the table as it was.
\<close>

definition insert_rows :: "table \<Rightarrow> row list \<Rightarrow> policy \<Rightarrow> db \<Rightarrow> (error + unit) \<times> db" where
  "insert_rows t rs p s =
     (let s1 = s\<lparr>events := events s @ [Insert t rs p]\<rparr>
      in case store_rows t p rs (tables s1 t) of
           Inl e \<Rightarrow> (Inl e, s1)
         | Inr rows' \<Rightarrow> (Inr (), s1\<lparr>tables := (tables s1)(t := rows')\<rparr>))"

definition insert1 :: "table \<Rightarrow> row \<Rightarrow> policy \<Rightarrow> db \<Rightarrow> (error + unit) \<times> db" where
  "insert1 t r p s = insert_rows t [r] p s"


definition print_msg :: "string \<Rightarrow> db \<Rightarrow> db" where
  "print_msg m s = s\<lparr>events := events s @ [Print m]\<rparr>"

text \<open>The row that a table holds under a primary key (the first one, should there be several).\<close>

definition lookup :: "table \<Rightarrow> val option list \<Rightarrow> row list \<Rightarrow> row option" where
  "lookup t k rows = find (\<lambda>r. key_of t r = k) rows"

subsection \<open>Rows as numpy and Python see them\<close>

text \<open>
  \<^verbatim>\<open>r[f]\<close> and \<^verbatim>\<open>rows[f]\<close> raise when the field is missing; \<^verbatim>\<open>rows[[f1, f2]]\<close> keeps the named
  fields in the order asked for; \<^verbatim>\<open>xs[mask]\<close> keeps the entries whose mask is true;
  \<^verbatim>\<open>np.unique\<close> returns the distinct values in increasing order.
\<close>

definition field :: "string \<Rightarrow> row \<Rightarrow> error + val" where
  "field f r = (case map_of r f of None \<Rightarrow> Inl (Missing_field f) | Some v \<Rightarrow> Inr v)"

primrec column :: "string \<Rightarrow> row list \<Rightarrow> error + val list" where
  "column f [] = Inr []"
| "column f (r # rs) =
     (case field f r of
        Inl e \<Rightarrow> Inl e
      | Inr v \<Rightarrow> (case column f rs of Inl e \<Rightarrow> Inl e | Inr vs \<Rightarrow> Inr (v # vs)))"

primrec project :: "string list \<Rightarrow> row \<Rightarrow> error + row" where
  "project [] r = Inr []"
| "project (f # fs) r =
     (case field f r of
        Inl e \<Rightarrow> Inl e
      | Inr v \<Rightarrow> (case project fs r of Inl e \<Rightarrow> Inl e | Inr r' \<Rightarrow> Inr ((f, v) # r')))"

primrec project_all :: "string list \<Rightarrow> row list \<Rightarrow> error + row list" where
  "project_all fs [] = Inr []"
| "project_all fs (r # rs) =
     (case project fs r of
        Inl e \<Rightarrow> Inl e
      | Inr r' \<Rightarrow> (case project_all fs rs of Inl e \<Rightarrow> Inl e | Inr rs' \<Rightarrow> Inr (r' # rs')))"





section \<open>ElectrodeSortingInfo\<close>

text \<open>
  \<^verbatim>\<open>self.insert(dj_replace(original, new_values, key_column, replace_column), replace="True")\<close>:
  the reconciliation call, then the upsert of its result. \<^verbatim>\<open>dj_replace\<close> is \<open>reconcile\<close>.
\<close>

definition insert_dj_replace ::
  "row list \<Rightarrow> (val \<times> val) list \<Rightarrow> string \<Rightarrow> string \<Rightarrow> db \<Rightarrow> (error + unit) \<times> db" where
  "insert_dj_replace original new_values key_column replace_column s =
     (let res = reconcile original new_values key_column replace_column;
          s1 = s\<lparr>events := events s @ [Reconcile original new_values key_column replace_column res]\<rparr>
      in case res of
           Inl e \<Rightarrow> (Inl e, s1)
         | Inr rows \<Rightarrow> insert_rows ElectrodeSortingInfo rows Replace s1)"

definition good_electrodes :: "string \<Rightarrow> row" where
  "good_electrodes nwb_file_name =
     [(''nwb_file_name'', StrV nwb_file_name), (''bad_channel'', StrV ''False'')]"

text \<open>
  The two key fields of an electrode row that has them: what
  \<^verbatim>\<open>electrodes[['nwb_file_name', 'electrode_id']]\<close> keeps of it.
\<close>

definition key_row :: "row \<Rightarrow> row" where
  "key_row e = [(''nwb_file_name'', the (map_of e ''nwb_file_name'')),
                (''electrode_id'', the (map_of e ''electrode_id''))]"

definition initialize :: "string \<Rightarrow> db \<Rightarrow> (error + unit) \<times> db" where
  "initialize nwb_file_name s =
     (let (electrodes, s1) = fetch Electrode (good_electrodes nwb_file_name) s
      in case project_all [''nwb_file_name'', ''electrode_id''] electrodes of
           Inl e \<Rightarrow> (Inl e, s1)
         | Inr electrode_sorting_info \<Rightarrow>
             insert_rows ElectrodeSortingInfo electrode_sorting_info Replace s1)"









section \<open>The read, reconcile, write discipline\<close>

text \<open>
  Three checks on the events of an operation. \<open>fresh_reads\<close>: the input of every
  reconciliation call is the result of a fetch, and that fetch is the store access
  immediately before the call (the argument is the result of the fetch when the latest
  store access was one). \<open>written_back\<close>: the result of every successful reconciliation call
  is what the next event upserts into \<open>ElectrodeSortingInfo\<close>. \<open>reads_once\<close>: the sorting
  information is fetched at most once, no reconciliation call comes before that fetch, and
  every reconciliation call takes the fetched collection as its input.
\<close>

fun fresh_reads :: "row list option \<Rightarrow> event list \<Rightarrow> bool" where
  "fresh_reads recent [] = True"
| "fresh_reads recent (Fetch t c rs # evs) = fresh_reads (Some rs) evs"
| "fresh_reads recent (Reconcile inp U kf vf res # evs) = (recent = Some inp \<and> fresh_reads recent evs)"
| "fresh_reads recent (Insert t rs p # evs) = fresh_reads None evs"
| "fresh_reads recent (Delete t c # evs) = fresh_reads None evs"
| "fresh_reads recent (Print m # evs) = fresh_reads recent evs"
| "fresh_reads recent (Print_dict d # evs) = fresh_reads recent evs"
| "fresh_reads recent (File_event a n # evs) = fresh_reads recent evs"



text \<open>
  The shape of the events of a loop over reconciliation calls on one collection: steps of
  a call on that collection and the upsert of its result, and at the end possibly a call
  that failed.
\<close>

fun rw_steps :: "row list \<Rightarrow> event list \<Rightarrow> bool" where
  "rw_steps snap [] = True"
| "rw_steps snap [Reconcile inp U kf vf (Inl e)] = (inp = snap)"
| "rw_steps snap (Reconcile inp U kf vf (Inr out) # Insert t rs p # evs) =
     (inp = snap \<and> t = ElectrodeSortingInfo \<and> rs = out \<and> p = Replace \<and> rw_steps snap evs)"
| "rw_steps snap evs = False"

fun rw_complete :: "row list \<Rightarrow> event list \<Rightarrow> bool" where
  "rw_complete snap [] = True"
| "rw_complete snap (Reconcile inp U kf vf (Inr out) # Insert t rs p # evs) =
     (inp = snap \<and> t = ElectrodeSortingInfo \<and> rs = out \<and> p = Replace \<and> rw_complete snap evs)"
| "rw_complete snap evs = False"

text \<open>
  A store for the examples: the file \<^verbatim>\<open>f\<close> has two good electrodes, in the electrode groups
  0 and 1, and a bad one; the file \<^verbatim>\<open>g\<close> has one electrode. The sorting information of \<^verbatim>\<open>f\<close>
  holds the default rows of the two good electrodes.
\<close>

definition electrode_row :: "string \<Rightarrow> int \<Rightarrow> string \<Rightarrow> string \<Rightarrow> row" where
  "electrode_row file i e_group bad =
     [(''nwb_file_name'', StrV file), (''electrode_id'', IntV i),
      (''electrode_group_name'', StrV e_group), (''probe_shank'', IntV 0),
      (''bad_channel'', StrV bad), (''original_reference_electrode'', IntV 7)]"

definition sorting_row :: "string \<Rightarrow> int \<Rightarrow> int \<Rightarrow> int \<Rightarrow> row" where
  "sorting_row file i sort_group reference =
     [(''nwb_file_name'', StrV file), (''electrode_id'', IntV i),
      (''sort_group'', IntV sort_group), (''reference_electrode'', IntV reference)]"

definition example_db :: db where
  "example_db =
     \<lparr>tables = (\<lambda>t. [])
        (Electrode :=
           [electrode_row ''f'' 0 ''0'' ''False'', electrode_row ''f'' 1 ''1'' ''False'',
            electrode_row ''f'' 2 ''1'' ''True'', electrode_row ''g'' 1 ''0'' ''False''],
         ElectrodeSortingInfo := [sorting_row ''f'' 0 (- 1) (- 1), sorting_row ''f'' 1 (- 1) (- 1)]),
      events = []\<rparr>"

section \<open>LFPElectrode\<close>




section \<open>Unit\<close>

text \<open>
  Python's \<^verbatim>\<open>d[k] = v\<close> on a dictionary: the value under an existing key is replaced in
  place, a new key goes to the end. \<open>string_of_nat\<close> is the decimal numeral that
  \<^verbatim>\<open>'{}'.format(n)\<close> prints for a number that is not negative.
\<close>

primrec dict_put :: "string \<Rightarrow> val \<Rightarrow> row \<Rightarrow> row" where
  "dict_put k v [] = [(k, v)]"
| "dict_put k v (p # ps) = (if fst p = k then (k, v) # ps else p # dict_put k v ps)"

fun string_of_nat :: "nat \<Rightarrow> string" where
  "string_of_nat n =
     (if n < 10 then [''0123456789'' ! n]
      else string_of_nat (n div 10) @ [''0123456789'' ! (n mod 10)])"

declare string_of_nat.simps [simp del]




section \<open>LFP\<close>

text \<open>
  \<^verbatim>\<open>fetch1\<close> returns the one row of a restriction and fails unless there is exactly one;
  reading an attribute that the row does not have fails as well. \<^verbatim>\<open>int(np.round(x))\<close> rounds
  half to even. \<^verbatim>\<open>len\<close> is defined on arrays and strings.
\<close>

definition fetch1 :: "table \<Rightarrow> row \<Rightarrow> db \<Rightarrow> (error + row) \<times> db" where
  "fetch1 t cond s =
     (let (rs, s1) = fetch t cond s
      in case rs of
           [r] \<Rightarrow> (Inr r, s1)
         | _ \<Rightarrow> (Inl (Fetch1_error (length rs)), s1))"

definition np_round :: "real \<Rightarrow> int" where
  "np_round x =
     (let f = \<lfloor>x\<rfloor>; d = x - of_int f
      in if d < 1 / 2 then f else if 1 / 2 < d then f + 1 else if even f then f else f + 1)"

fun int_round :: "val \<Rightarrow> error + int" where
  "int_round (FloatV x) = Inr (np_round x)"
| "int_round (IntV i) = Inr i"
| "int_round v = Inl TypeError"

fun len :: "val \<Rightarrow> error + nat" where
  "len (ArrayV xs) = Inr (length xs)"
| "len (StrV s) = Inr (length s)"
| "len v = Inl TypeError"

fun path_of :: "val \<Rightarrow> error + string" where
  "path_of (StrV p) = Inr p"
| "path_of v = Inl TypeError"

definition string_of_int :: "int \<Rightarrow> string" where
  "string_of_int i = (if i < 0 then ''-'' @ string_of_nat (nat (- i)) else string_of_nat (nat i))"

definition file_event :: "string \<Rightarrow> string \<Rightarrow> db \<Rightarrow> db" where
  "file_event action name s = s\<lparr>events := events s @ [File_event action name]\<rparr>"

text \<open>
  \<^verbatim>\<open>Raw.nwb_object\<close>: the file named by the key is opened for reading (and left open), the
  object id of the raw data is fetched, and the object of that id in the file is returned;
  the model returns the id in its place.
\<close>

definition nwb_object :: "row \<Rightarrow> db \<Rightarrow> (error + val) \<times> db" where
  "nwb_object key s =
     (case map_of key ''nwb_file_name'' of
        None \<Rightarrow> (Inl (KeyError ''nwb_file_name''), s)
      | Some nwb_file_name \<Rightarrow>
     (case path_of nwb_file_name of
        Inl e \<Rightarrow> (Inl e, s)
      | Inr path \<Rightarrow>
          (let s1 = file_event ''open for reading'' path s
           in case fetch1 Raw [(''nwb_file_name'', nwb_file_name)] s1 of
                (Inl e, s2) \<Rightarrow> (Inl e, s2)
              | (Inr r, s2) \<Rightarrow>
                  (case field ''nwb_object_id'' r of
                     Inl e \<Rightarrow> (Inl e, s2)
                   | Inr nwb_object_id \<Rightarrow> (Inr nwb_object_id, s2)))))"

text \<open>
  What \<^verbatim>\<open>LFP.make\<close> gets back from its collaborators: the names of the files that
  \<^verbatim>\<open>LinkedNwbfile\<close> and \<^verbatim>\<open>FirFilter.filter_data_hdf5\<close> create, and the object id of the new
  electrical series. The filtering and the file contents are theirs; the model records
  that they were asked.
\<close>

record lfp_files =
  nwb_out_file_name :: string
  h5file_name :: string
  linked_file_name :: string
  es_object_id :: string

fun lfp_insert_loop :: "row \<Rightarrow> val list \<Rightarrow> db \<Rightarrow> (error + unit) \<times> db" where
  "lfp_insert_loop key [] s = (Inr (), s)"
| "lfp_insert_loop key (electrode # electrode_id_list) s =
     (let key1 = dict_put ''electrode_id'' electrode key;
          s1 = s\<lparr>events := events s @ [Print_dict key1]\<rparr>
      in case insert1 LFP key1 Default_policy s1 of
           (Inl e, s2) \<Rightarrow> (Inl e, s2)
         | (Inr u, s2) \<Rightarrow> lfp_insert_loop key1 electrode_id_list s2)"

text \<open>The part of \<^verbatim>\<open>LFP.make\<close> after the check of the filter coefficients (lines 542 to 592).\<close>

definition lfp_write :: "lfp_files \<Rightarrow> row \<Rightarrow> string \<Rightarrow> row \<Rightarrow> db \<Rightarrow> (error + unit) \<times> db" where
  "lfp_write files key nwb_file_name filter0 s =
     (let (electrode_keys, s1) = fetch LFPElectrode key s
      in case column ''electrode_id''
                (map (filter (\<lambda>(k, v). k \<in> set (primary_key LFPElectrode))) electrode_keys) of
           Inl e \<Rightarrow> (Inl e, s1)
         | Inr electrode_id_list \<Rightarrow>
             (let s2 = file_event ''create'' (nwb_out_file_name files) s1;
                  s3 = print_msg (''output file name '' @ nwb_out_file_name files) s2;
                  s4 = file_event ''filter_data_nwb'' (nwb_out_file_name files) s3;
                  s5 = file_event ''filter_data_hdf5'' (h5file_name files) s4;
                  key1 = dict_put ''linked_file_name'' (StrV (linked_file_name files)) key;
                  key2 = dict_put ''linked_file_location'' (StrV (linked_file_name files)) key1;
                  s6 = file_event ''open for reading'' nwb_file_name s5;
                  s7 = print_msg ''past append'' s6;
                  s8 = file_event ''open for reading'' (h5file_name files) s7
              in case map_of filter0 ''filter_low_pass'' of
                   None \<Rightarrow> (Inl (KeyError ''filter_low_pass''), s8)
                 | Some low \<Rightarrow>
                (case map_of filter0 ''filter_high_pass'' of
                   None \<Rightarrow> (Inl (KeyError ''filter_high_pass''), s8)
                 | Some high \<Rightarrow>
                     (let s9 = print_msg (''writing new NWB file '' @ linked_file_name files) s8;
                          s10 = file_event ''write'' (linked_file_name files) s9;
                          key3 = dict_put ''nwb_object_id'' (StrV (es_object_id files)) key2
                      in lfp_insert_loop key3 electrode_id_list s10))))"

text \<open>
  The part of \<^verbatim>\<open>LFP.make\<close> that takes the first of the fetched filters and checks its
  coefficients (lines 532 to 539).
\<close>

definition lfp_filter ::
  "lfp_files \<Rightarrow> row \<Rightarrow> val \<Rightarrow> int \<Rightarrow> row list \<Rightarrow> db \<Rightarrow> (error + unit) \<times> db" where
  "lfp_filter files key nwb_file_name sampling_rate filters s =
     (case filters of
        [] \<Rightarrow> (Inl IndexError, s)
      | filter0 # others \<Rightarrow>
     (case map_of filter0 ''filter_name'' of
        None \<Rightarrow> (Inl (KeyError ''filter_name''), s)
      | Some filter_name \<Rightarrow>
     (case map_of filter0 ''filter_sampling_rate'' of
        None \<Rightarrow> (Inl (KeyError ''filter_sampling_rate''), s)
      | Some filter_sampling_rate \<Rightarrow>
     (let key1 = dict_put ''filter_name'' filter_name key;
          key2 = dict_put ''filter_sampling_rate'' filter_sampling_rate key1
      in case map_of filter0 ''filter_coeff'' of
           None \<Rightarrow> (Inl (KeyError ''filter_coeff''), s)
         | Some filter_coeff \<Rightarrow>
     (case len filter_coeff of
        Inl e \<Rightarrow> (Inl e, s)
      | Inr n \<Rightarrow>
          if n = 0
          then (Inr (), print_msg (''Error in LFP: no filter found with data sampling rate of '' @
                                    string_of_int sampling_rate) s)
          else (case path_of nwb_file_name of
                  Inl e \<Rightarrow> (Inl e, s)
                | Inr path \<Rightarrow> lfp_write files key2 path filter0 s))))))"

definition LFP_make :: "lfp_files \<Rightarrow> row \<Rightarrow> db \<Rightarrow> (error + unit) \<times> db" where
  "LFP_make files key s =
     (case nwb_object key s of
        (Inl e, s1) \<Rightarrow> (Inl e, s1)
      | (Inr rawdata, s1) \<Rightarrow>
     (case fetch1 Raw key s1 of
        (Inl e, s2) \<Rightarrow> (Inl e, s2)
      | (Inr raw, s2) \<Rightarrow>
     (case field ''sampling_rate'' raw of
        Inl e \<Rightarrow> (Inl e, s2)
      | Inr rate \<Rightarrow>
     (case field ''interval_name'' raw of
        Inl e \<Rightarrow> (Inl e, s2)
      | Inr interval_name \<Rightarrow>
     (case int_round rate of
        Inl e \<Rightarrow> (Inl e, s2)
      | Inr sampling_rate \<Rightarrow>
     (let key1 = dict_put ''interval_list_name'' interval_name key;
          key2 = dict_put ''sampling_rate'' (IntV sampling_rate) key1
      in case map_of key2 ''nwb_file_name'' of
           None \<Rightarrow> (Inl (KeyError ''nwb_file_name''), s2)
         | Some nwb_file_name \<Rightarrow>
     (case fetch1 IntervalList
             [(''nwb_file_name'', nwb_file_name), (''interval_list_name'', interval_name)] s2 of
        (Inl e, s3) \<Rightarrow> (Inl e, s3)
      | (Inr intervals, s3) \<Rightarrow>
     (case field ''valid_times'' intervals of
        Inl e \<Rightarrow> (Inl e, s3)
      | Inr valid_times \<Rightarrow>
     (let (filter, s4) =
            fetch FirFilter
              [(''filter_name'', StrV ''LFP 0-400 Hz''), (''filter_sampling_rate'', IntV sampling_rate)] s3
      in lfp_filter files key2 nwb_file_name sampling_rate filter s4)))))))))"

text \<open>
  The filters that \<^verbatim>\<open>LFP.make\<close> asks for at a sampling rate, and the sampling rates that it
  can ask for with a key: the rounded rates of the raw data that the key selects.
\<close>

definition matching_filters :: "int \<Rightarrow> db \<Rightarrow> row list" where
  "matching_filters rate s =
     filter (matches [(''filter_name'', StrV ''LFP 0-400 Hz''), (''filter_sampling_rate'', IntV rate)])
       (tables s FirFilter)"

definition requested_rates :: "row \<Rightarrow> db \<Rightarrow> int list" where
  "requested_rates key s =
     concat (map (\<lambda>raw. case field ''sampling_rate'' raw of
                           Inl e \<Rightarrow> []
                         | Inr v \<Rightarrow> (case int_round v of Inl e \<Rightarrow> [] | Inr rate \<Rightarrow> [rate]))
                 (filter (matches key) (tables s Raw)))"

text \<open>
  A store for \<^verbatim>\<open>LFP.make\<close>: the raw data of the file \<^verbatim>\<open>f\<close> as \<^verbatim>\<open>Raw.make\<close> stores them, with
  the interval list under the attribute \<^verbatim>\<open>interval_list_name\<close>, the interval list itself,
  one selected LFP electrode, and no filter at all. In the second store the raw data row
  carries the name of its interval list under \<^verbatim>\<open>interval_name\<close> too, the attribute that
  \<^verbatim>\<open>LFP.make\<close> asks for.
\<close>

definition raw_row :: row where
  "raw_row =
     [(''nwb_file_name'', StrV ''f''), (''interval_list_name'', StrV ''raw data valid times''),
      (''nwb_object_id'', StrV ''id0''), (''sampling_rate'', FloatV 30000),
      (''comments'', StrV []), (''description'', StrV [])]"

definition example_raw_db :: db where
  "example_raw_db =
     \<lparr>tables = (\<lambda>t. [])
        (Raw := [raw_row],
         FirFilter :=
           [[(''filter_name'', StrV ''LFP 0-400 Hz''), (''filter_sampling_rate'', IntV 20000),
             (''filter_type'', StrV ''lowpass''), (''filter_low_stop'', FloatV 0),
             (''filter_low_pass'', FloatV 0), (''filter_high_pass'', FloatV 400),
             (''filter_high_stop'', FloatV 425), (''filter_comments'', StrV []),
             (''filter_band_edges'', ArrayV [400, 425]), (''filter_coeff'', ArrayV [1, 2])]],
         IntervalList :=
           [[(''nwb_file_name'', StrV ''f''), (''interval_list_name'', StrV ''raw data valid times''),
             (''valid_times'', ArrayV [0, 10])]],
         LFPElectrode := [[(''nwb_file_name'', StrV ''f''), (''electrode_id'', IntV 1)]]),
      events = []\<rparr>"

definition example_raw_db' :: db where
  "example_raw_db' =
     example_raw_db\<lparr>tables := (tables example_raw_db)
       (Raw := [raw_row @ [(''interval_name'', StrV ''raw data valid times'')]])\<rparr>"

definition example_files :: lfp_files where
  "example_files =
     \<lparr>nwb_out_file_name = ''f_linked'', h5file_name = ''f.h5'', linked_file_name = ''f_linked'',
      es_object_id = ''id1''\<rparr>"

text \<open>The events that only read: a fetch, and the opening of a file for reading.\<close>

fun read_event :: "event \<Rightarrow> bool" where
  "read_event (Fetch t c rs) = True"
| "read_event (File_event action name) = (action = ''open for reading'')"
| "read_event e = False"

definition only_reads :: "event list \<Rightarrow> bool" where
  "only_reads evs = list_all read_event evs"

section \<open>Facts about reconciliation\<close>




lemma paired_value_None_iff: "paired_value k us = None \<longleftrightarrow> k \<notin> fst ` set us"
  by (induction us) (auto split: option.splits)


lemma paired_value_mem: "paired_value k us = Some x \<Longrightarrow> (k, x) \<in> set us"
  by (induction us) (auto split: option.splits if_splits)

lemma reconcile_record_unmatched:
  "(\<And>k. map_of r kf = Some k \<Longrightarrow> k \<notin> fst ` set us) \<Longrightarrow> reconcile_record us kf vf r = Inr r"
proof (cases "map_of r kf")
  case None
  then show ?thesis by (simp add: reconcile_record_def)
next
  case (Some k)
  assume "\<And>k. map_of r kf = Some k \<Longrightarrow> k \<notin> fst ` set us"
  with Some have "paired_value k us = None" by (simp add: paired_value_None_iff)
  with Some show ?thesis by (simp add: reconcile_record_def)
qed







lemma reconcile_unmatched:
  "(\<And>r k. r \<in> set E \<Longrightarrow> map_of r kf = Some k \<Longrightarrow> k \<notin> fst ` set us) \<Longrightarrow>
   reconcile E us kf vf = Inr E"
proof (induction E)
  case Nil
  show ?case by simp
next
  case (Cons r E)
  have "reconcile_record us kf vf r = Inr r"
    by (rule reconcile_record_unmatched) (use Cons.prems in auto)
  moreover have "reconcile E us kf vf = Inr E"
    by (rule Cons.IH) (use Cons.prems in auto)
  ultimately show ?case by simp
qed


section \<open>Facts about the store and the events of the operations\<close>

lemma fetch_result [simp]: "fst (fetch t c s) = filter (matches c) (tables s t)"
  by (simp add: fetch_def Let_def)

lemma fetch_state [simp]:
  "snd (fetch t c s) = s\<lparr>events := events s @ [Fetch t c (filter (matches c) (tables s t))]\<rparr>"
  by (simp add: fetch_def Let_def)

lemma store_row_Replace: "store_row t Replace r rows = Inr (replace_row t r rows)"
proof -
  have "key_of t r \<notin> key_of t ` set rows \<Longrightarrow> replace_row t r rows = rows @ [r]"
    by (induction rows) auto
  then show ?thesis by (auto simp: store_row_def)
qed

lemma store_rows_Replace:
  "store_rows t Replace rs rows = Inr (fold (\<lambda>r. replace_row t (with_defaults t r)) rs rows)"
  by (induction rs arbitrary: rows) (simp_all add: store_row_Replace)

lemma insert_rows_Replace:
  "insert_rows t rs Replace s =
     (Inr (), s\<lparr>events := events s @ [Insert t rs Replace],
               tables := (tables s)(t := fold (\<lambda>r. replace_row t (with_defaults t r)) rs (tables s t))\<rparr>)"
  by (simp add: insert_rows_def store_rows_Replace)

lemma insert_dj_replace_Inr:
  "reconcile original nv kc rc = Inr out \<Longrightarrow>
   insert_dj_replace original nv kc rc s =
     (Inr (), s\<lparr>events := events s @ [Reconcile original nv kc rc (Inr out), Insert ElectrodeSortingInfo out Replace],
               tables := (tables s)(ElectrodeSortingInfo :=
                  fold (\<lambda>r. replace_row ElectrodeSortingInfo (with_defaults ElectrodeSortingInfo r)) out
                    (tables s ElectrodeSortingInfo))\<rparr>)"
  by (simp add: insert_dj_replace_def insert_rows_Replace)

lemma insert_dj_replace_Inl:
  "reconcile original nv kc rc = Inl e \<Longrightarrow>
   insert_dj_replace original nv kc rc s =
     (Inl e, s\<lparr>events := events s @ [Reconcile original nv kc rc (Inl e)]\<rparr>)"
  by (simp add: insert_dj_replace_def)


lemma rw_complete_append:
  "rw_complete snap evs1 \<Longrightarrow> rw_steps snap evs2 \<Longrightarrow> rw_steps snap (evs1 @ evs2)"
  by (induction snap evs1 rule: rw_complete.induct) simp_all


lemma rw_complete_steps: "rw_complete snap evs \<Longrightarrow> rw_steps snap evs"
  using rw_complete_append [of snap evs "[]"] by simp








lemma insert_dj_replace_fresh:
  "events_of s (snd (insert_dj_replace snap nv kc rc (s\<lparr>events := events s @ pre @ [Fetch t c snap]\<rparr>)))
     = pre @ Fetch t c snap # evs \<Longrightarrow> fresh_reads (Some snap) evs \<and> rw_steps snap evs"
  by (cases "reconcile snap nv kc rc")
    (auto simp: insert_dj_replace_Inl insert_dj_replace_Inr events_of_def)



subsection \<open>Upserts, seen through the primary key\<close>

lemma lookup_replace_row:
  "lookup t k (replace_row t r rows) = (if k = key_of t r then Some r else lookup t k rows)"
  by (induction rows) (auto simp: lookup_def)

lemma lookup_fold_replace_row:
  assumes "\<And>r. r \<in> set rs \<Longrightarrow> key_of t (g r) = k \<Longrightarrow> g r = R"
  shows "lookup t k (fold (\<lambda>r. replace_row t (g r)) rs rows) =
           (if k \<in> (\<lambda>r. key_of t (g r)) ` set rs then Some R else lookup t k rows)"
  using assms
proof (induction rs arbitrary: rows)
  case Nil
  show ?case by simp
next
  case (Cons r rs)
  have IH: "lookup t k (fold (\<lambda>r. replace_row t (g r)) rs (replace_row t (g r) rows)) =
      (if k \<in> (\<lambda>r. key_of t (g r)) ` set rs then Some R else lookup t k (replace_row t (g r) rows))"
    by (rule Cons.IH) (use Cons.prems in auto)
  show ?case
  proof (cases "key_of t (g r) = k")
    case True
    with Cons.prems have "g r = R" by simp
    with True IH show ?thesis by (auto simp: lookup_replace_row)
  next
    case False
    with IH show ?thesis by (auto simp: lookup_replace_row)
  qed
qed

lemma keys_replace_row:
  "set (map (key_of t) (replace_row t r rows)) = insert (key_of t r) (set (map (key_of t) rows))"
  by (induction rows) auto

lemma distinct_replace_row:
  "distinct (map (key_of t) rows) \<Longrightarrow> distinct (map (key_of t) (replace_row t r rows))"
proof (induction rows)
  case Nil
  show ?case by simp
next
  case (Cons x rows)
  show ?case
  proof (cases "key_of t x = key_of t r")
    case True
    with Cons.prems show ?thesis by simp
  next
    case False
    from Cons have "distinct (map (key_of t) (replace_row t r rows))" by simp
    moreover from Cons.prems False
    have "key_of t x \<notin> set (map (key_of t) (replace_row t r rows))"
      unfolding keys_replace_row by simp
    ultimately show ?thesis using False by simp
  qed
qed

lemma distinct_fold_replace_row:
  "distinct (map (key_of t) rows) \<Longrightarrow>
   distinct (map (key_of t) (fold (\<lambda>r. replace_row t (g r)) rs rows))"
  by (induction rs arbitrary: rows) (simp_all add: distinct_replace_row)

subsection \<open>The key projection of the electrodes\<close>

lemma project_key_row:
  "map_of e ''nwb_file_name'' \<noteq> None \<Longrightarrow> map_of e ''electrode_id'' \<noteq> None \<Longrightarrow>
   project [''nwb_file_name'', ''electrode_id''] e = Inr (key_row e)"
  by (auto simp: field_def key_row_def)

lemma project_all_key_rows:
  "(\<And>e. e \<in> set es \<Longrightarrow> map_of e ''nwb_file_name'' \<noteq> None \<and> map_of e ''electrode_id'' \<noteq> None) \<Longrightarrow>
   project_all [''nwb_file_name'', ''electrode_id''] es = Inr (map key_row es)"
proof (induction es)
  case Nil
  show ?case by simp
next
  case (Cons e es)
  from Cons.prems have "project [''nwb_file_name'', ''electrode_id''] e = Inr (key_row e)"
    by (intro project_key_row) simp_all
  moreover have "project_all [''nwb_file_name'', ''electrode_id''] es = Inr (map key_row es)"
    by (rule Cons.IH) (use Cons.prems in simp)
  ultimately show ?case by simp
qed

lemma with_defaults_key_row:
  "with_defaults ElectrodeSortingInfo (key_row e) =
     key_row e @ [(''sort_group'', IntV (- 1)), (''reference_electrode'', IntV (- 1))]"
  by (simp add: with_defaults_def key_row_def)

lemma key_of_stored_key_row:
  "map_of e ''nwb_file_name'' \<noteq> None \<Longrightarrow> map_of e ''electrode_id'' \<noteq> None \<Longrightarrow>
   key_of ElectrodeSortingInfo (with_defaults ElectrodeSortingInfo (key_row e)) = key_of Electrode e"
  by (auto simp: with_defaults_def key_row_def key_of_def)

lemma stored_key_row_determined:
  assumes "map_of e ''nwb_file_name'' \<noteq> None" "map_of e ''electrode_id'' \<noteq> None"
    and "map_of e' ''nwb_file_name'' \<noteq> None" "map_of e' ''electrode_id'' \<noteq> None"
    and "key_of Electrode e = key_of Electrode e'"
  shows "key_row e = key_row e'"
  using assms by (auto simp: key_row_def key_of_def)

subsection \<open>The loop of \<open>set_lfp_electrodes\<close>\<close>




subsection \<open>Inserts that skip duplicates\<close>





subsection \<open>The reads of \<open>LFP.make\<close>\<close>

lemma fetch1_reads:
  "fetch1 t c s = (r, s1) \<Longrightarrow>
   s1 = s\<lparr>events := events s @ [Fetch t c (filter (matches c) (tables s t))]\<rparr>"
  by (auto simp: fetch1_def fetch_def Let_def split: list.splits)

lemma nwb_object_reads:
  "nwb_object key s = (r, s1) \<Longrightarrow> \<exists>evs. s1 = s\<lparr>events := events s @ evs\<rparr> \<and> only_reads evs"
proof (cases "map_of key ''nwb_file_name''")
  case None
  assume "nwb_object key s = (r, s1)"
  with None have "s1 = s\<lparr>events := events s @ []\<rparr>" by (simp add: nwb_object_def)
  then show ?thesis by (intro exI [of _ "[]"]) (simp add: only_reads_def)
next
  case (Some name)
  assume run: "nwb_object key s = (r, s1)"
  show ?thesis
  proof (cases "path_of name")
    case (Inl e)
    with Some run have "s1 = s\<lparr>events := events s @ []\<rparr>" by (simp add: nwb_object_def)
    then show ?thesis by (intro exI [of _ "[]"]) (simp add: only_reads_def)
  next
    case (Inr path)
    obtain r2 s2 where f: "fetch1 Raw [(''nwb_file_name'', name)] (file_event ''open for reading'' path s) = (r2, s2)"
      by (cases "fetch1 Raw [(''nwb_file_name'', name)] (file_event ''open for reading'' path s)")
    from fetch1_reads [OF f] have s2: "s2 = s\<lparr>events := events s @
        [File_event ''open for reading'' path,
         Fetch Raw [(''nwb_file_name'', name)] (filter (matches [(''nwb_file_name'', name)]) (tables s Raw))]\<rparr>"
      by (simp add: file_event_def)
    from run Some Inr f have "s1 = s2"
      by (auto simp: nwb_object_def Let_def split: sum.splits)
    with s2 show ?thesis
      by (intro exI [of _ "[File_event ''open for reading'' path,
         Fetch Raw [(''nwb_file_name'', name)] (filter (matches [(''nwb_file_name'', name)]) (tables s Raw))]"])
        (simp add: only_reads_def)
  qed
qed

lemma fetch1_row:
  "fetch1 t c s = (Inr r, s1) \<Longrightarrow> filter (matches c) (tables s t) = [r]"
  by (auto simp: fetch1_def fetch_def Let_def split: list.splits)

lemma LFP_make_without_filter:
  assumes none: "\<And>rate. rate \<in> set (requested_rates key s) \<Longrightarrow> matching_filters rate s = []"
  shows "\<exists>e evs. LFP_make files key s = (Inl e, s\<lparr>events := events s @ evs\<rparr>) \<and> only_reads evs"
proof -
  define stops where
    "stops res \<longleftrightarrow> (\<exists>e evs. res = (Inl e, s\<lparr>events := events s @ evs\<rparr>) \<and> only_reads evs)"
    for res :: "(error + unit) \<times> db"
  obtain r1 s1 where o: "nwb_object key s = (r1, s1)" by (cases "nwb_object key s")
  from nwb_object_reads [OF o] obtain evs1 where
    s1: "s1 = s\<lparr>events := events s @ evs1\<rparr>" and r1: "only_reads evs1" by blast
  obtain r2 s2 where f2: "fetch1 Raw key s1 = (r2, s2)" by (cases "fetch1 Raw key s1")
  define evs2 where "evs2 = evs1 @ [Fetch Raw key (filter (matches key) (tables s Raw))]"
  from fetch1_reads [OF f2] s1 have s2: "s2 = s\<lparr>events := events s @ evs2\<rparr>"
    by (simp add: evs2_def)
  from r1 have r2: "only_reads evs2" by (simp add: evs2_def only_reads_def)
  have after: "stops (case fetch1 IntervalList c s2 of
        (Inl e, s3) \<Rightarrow> (Inl e, s3)
      | (Inr intervals, s3) \<Rightarrow>
          (case field ''valid_times'' intervals of
             Inl e \<Rightarrow> (Inl e, s3)
           | Inr valid_times \<Rightarrow>
               (let (filter, s4) = fetch FirFilter
                  [(''filter_name'', StrV ''LFP 0-400 Hz''), (''filter_sampling_rate'', IntV rate)] s3
                in lfp_filter files k n rate filter s4)))"
    if nf: "matching_filters rate s = []" for c rate k n
  proof -
    obtain r3 s3 where f3: "fetch1 IntervalList c s2 = (r3, s3)" by (cases "fetch1 IntervalList c s2")
    define evs3 where "evs3 = evs2 @ [Fetch IntervalList c (filter (matches c) (tables s IntervalList))]"
    from fetch1_reads [OF f3] s2 have s3: "s3 = s\<lparr>events := events s @ evs3\<rparr>"
      by (simp add: evs3_def)
    from r2 have r3: "only_reads evs3" by (simp add: evs3_def only_reads_def)
    have "only_reads (evs3 @ [Fetch FirFilter
        [(''filter_name'', StrV ''LFP 0-400 Hz''), (''filter_sampling_rate'', IntV rate)] []])"
      using r3 by (simp add: only_reads_def)
    with f3 s3 r3 nf show ?thesis
      by (auto simp: stops_def fetch_def Let_def lfp_filter_def matching_filters_def split: sum.splits)
  qed
  have stop1: "stops (Inl e', s1)" for e' using s1 r1 by (auto simp: stops_def)
  have stop2: "stops (Inl e', s2)" for e' using s2 r2 by (auto simp: stops_def)
  have "stops (LFP_make files key s)"
  proof (cases r1)
    case (Inl e)
    with o stop1 show ?thesis by (simp add: LFP_make_def)
  next
    case rawdata: (Inr rawdata)
    show ?thesis
    proof (cases r2)
      case (Inl e)
      with o f2 rawdata stop2 show ?thesis by (simp add: LFP_make_def)
    next
      case raw: (Inr raw)
      from f2 raw s1 have sel: "filter (matches key) (tables s Raw) = [raw]"
        using fetch1_row [of Raw key s1 raw s2] by simp
      have run: "LFP_make files key s =
        (case field ''sampling_rate'' raw of
           Inl e \<Rightarrow> (Inl e, s2)
         | Inr rate \<Rightarrow>
        (case field ''interval_name'' raw of
           Inl e \<Rightarrow> (Inl e, s2)
         | Inr interval_name \<Rightarrow>
        (case int_round rate of
           Inl e \<Rightarrow> (Inl e, s2)
         | Inr sampling_rate \<Rightarrow>
        (let key1 = dict_put ''interval_list_name'' interval_name key;
             key2 = dict_put ''sampling_rate'' (IntV sampling_rate) key1
         in case map_of key2 ''nwb_file_name'' of
              None \<Rightarrow> (Inl (KeyError ''nwb_file_name''), s2)
            | Some nwb_file_name \<Rightarrow>
        (case fetch1 IntervalList
                [(''nwb_file_name'', nwb_file_name), (''interval_list_name'', interval_name)] s2 of
           (Inl e, s3) \<Rightarrow> (Inl e, s3)
         | (Inr intervals, s3) \<Rightarrow>
        (case field ''valid_times'' intervals of
           Inl e \<Rightarrow> (Inl e, s3)
         | Inr valid_times \<Rightarrow>
        (let (filter, s4) =
               fetch FirFilter
                 [(''filter_name'', StrV ''LFP 0-400 Hz''), (''filter_sampling_rate'', IntV sampling_rate)] s3
         in lfp_filter files key2 nwb_file_name sampling_rate filter s4)))))))"
        using o f2 rawdata raw by (simp add: LFP_make_def)
      show ?thesis
      proof (cases "field ''sampling_rate'' raw")
        case (Inl e)
        with stop2 show ?thesis unfolding run by simp
      next
        case v: (Inr v)
        show ?thesis
        proof (cases "int_round v")
          case (Inl e)
          with v stop2 show ?thesis unfolding run by (simp split: sum.splits)
        next
          case rate: (Inr rate)
          from sel v rate have "rate \<in> set (requested_rates key s)"
            by (simp add: requested_rates_def)
          then have nf: "matching_filters rate s = []" by (rule none)
          show ?thesis
            unfolding run
            using v rate stop2 after [OF nf]
            by (simp add: Let_def split: sum.splits option.splits)
        qed
      qed
    qed
  qed
  then show ?thesis by (simp add: stops_def)
qed


section \<open>Claims about reconciliation\<close>









text \<open>
  C5. Unknown keys are ignored: when no key of the update pairs is the key of an existing
  record, \<open>reconcile\<close> returns the existing records unchanged, as a normal result and not
  as an error. In the scenario of the specification, the update (4, "z") leaves the three
  records as they were.
\<close>

theorem reconcile_ignores_unknown_keys:
  assumes unknown: "\<forall>u\<in>set U. Some (fst u) \<notin> set (key_values key_field E)"
  shows "reconcile E U key_field value_field = Inr E"
proof (rule reconcile_unmatched)
  fix r k
  assume r: "r \<in> set E" and k: "map_of r key_field = Some k"
  then have "Some k \<in> set (key_values key_field E)"
    by (force simp: key_values_def)
  with unknown show "k \<notin> fst ` set U" by auto
qed

theorem reconcile_ignores_unknown_keys_witness:
  "reconcile scenario_E [(IntV 4, StrV ''z'')] ''id'' ''val'' = Inr scenario_E"
proof -
  have "\<forall>u\<in>set [(IntV 4, StrV ''z'')]. Some (fst u) \<notin> set (key_values ''id'' scenario_E)"
    by (simp add: key_values_def scenario_E_def)
  then show ?thesis by (rule reconcile_ignores_unknown_keys)
qed

section \<open>Claims about the operations on the sorting information\<close>




text \<open>
  C10. Let every row of \<open>ElectrodeConfig.Electrode\<close> carry its key fields and \<open>bad_channel\<close>, as
  the table definition requires. Then \<open>initialize\<close> succeeds; it fetches the electrodes of the
  file whose \<open>bad_channel\<close> is \<open>False\<close> and inserts, with replace, one row for each of them, in
  the same order, made of the two key fields alone. Afterwards the sorting information
  holds, under the key of each such electrode, the key fields with \<open>sort_group\<close> and
  \<open>reference_electrode\<close> at their default -1; under every other key it holds what it held
  before, so that an electrode with \<open>bad_channel\<close> \<open>True\<close> (its key being its own) receives
  no row; keys that were unique stay unique; and no other table changes.
\<close>

theorem initialize_default_rows:
  assumes wf: "\<forall>e\<in>set (tables s Electrode).
      map_of e ''nwb_file_name'' \<noteq> None \<and> map_of e ''electrode_id'' \<noteq> None \<and>
      map_of e ''bad_channel'' \<noteq> None"
  shows "\<exists>good s'.
     good = filter (\<lambda>e. map_of e ''nwb_file_name'' = Some (StrV f) \<and>
                         map_of e ''bad_channel'' = Some (StrV ''False'')) (tables s Electrode) \<and>
     initialize f s = (Inr (), s') \<and>
     events_of s s' =
       [Fetch Electrode (good_electrodes f) good,
        Insert ElectrodeSortingInfo (map key_row good) Replace] \<and>
     (\<forall>e\<in>set good. lookup ElectrodeSortingInfo (key_of Electrode e) (tables s' ElectrodeSortingInfo)
          = Some (key_row e @ [(''sort_group'', IntV (- 1)), (''reference_electrode'', IntV (- 1))])) \<and>
     (\<forall>k. k \<notin> key_of Electrode ` set good \<longrightarrow>
          lookup ElectrodeSortingInfo k (tables s' ElectrodeSortingInfo)
          = lookup ElectrodeSortingInfo k (tables s ElectrodeSortingInfo)) \<and>
     (distinct (map (key_of Electrode) (tables s Electrode)) \<longrightarrow>
        (\<forall>e\<in>set (tables s Electrode). map_of e ''bad_channel'' = Some (StrV ''True'') \<longrightarrow>
           lookup ElectrodeSortingInfo (key_of Electrode e) (tables s' ElectrodeSortingInfo)
           = lookup ElectrodeSortingInfo (key_of Electrode e) (tables s ElectrodeSortingInfo))) \<and>
     (distinct (map (key_of ElectrodeSortingInfo) (tables s ElectrodeSortingInfo)) \<longrightarrow>
        distinct (map (key_of ElectrodeSortingInfo) (tables s' ElectrodeSortingInfo))) \<and>
     (\<forall>t. t \<noteq> ElectrodeSortingInfo \<longrightarrow> tables s' t = tables s t)"
proof -
  define good where "good = filter (\<lambda>e. map_of e ''nwb_file_name'' = Some (StrV f) \<and>
      map_of e ''bad_channel'' = Some (StrV ''False'')) (tables s Electrode)"
  define store where "store = (\<lambda>r. replace_row ElectrodeSortingInfo (with_defaults ElectrodeSortingInfo r))"
  define s' where "s' = s\<lparr>events := events s @
        [Fetch Electrode (good_electrodes f) good, Insert ElectrodeSortingInfo (map key_row good) Replace],
      tables := (tables s)(ElectrodeSortingInfo := fold store (map key_row good) (tables s ElectrodeSortingInfo))\<rparr>"
  have fetched: "filter (matches (good_electrodes f)) (tables s Electrode) = good"
    unfolding good_def
    by (rule filter_cong) (use wf in \<open>auto simp: matches_def good_electrodes_def\<close>)
  have good_wf: "map_of e ''nwb_file_name'' \<noteq> None \<and> map_of e ''electrode_id'' \<noteq> None"
    if "e \<in> set good" for e
    using that wf by (auto simp: good_def)
  then have keys: "project_all [''nwb_file_name'', ''electrode_id''] good = Inr (map key_row good)"
    by (intro project_all_key_rows) blast
  have run: "initialize f s = (Inr (), s')"
    by (simp add: initialize_def Let_def split_def fetched keys insert_rows_Replace s'_def store_def)
  have evs: "events_of s s' =
      [Fetch Electrode (good_electrodes f) good, Insert ElectrodeSortingInfo (map key_row good) Replace]"
    by (simp add: events_of_def s'_def)
  have table: "tables s' ElectrodeSortingInfo =
      fold (\<lambda>r. replace_row ElectrodeSortingInfo (with_defaults ElectrodeSortingInfo (key_row r))) good
        (tables s ElectrodeSortingInfo)"
    by (simp add: s'_def store_def fold_map comp_def)
  have stored_key: "key_of ElectrodeSortingInfo (with_defaults ElectrodeSortingInfo (key_row e)) = key_of Electrode e"
    if "e \<in> set good" for e
    using good_wf [OF that] by (simp add: key_of_stored_key_row)
  have found: "lookup ElectrodeSortingInfo (key_of Electrode e) (tables s' ElectrodeSortingInfo)
      = Some (key_row e @ [(''sort_group'', IntV (- 1)), (''reference_electrode'', IntV (- 1))])"
    if e: "e \<in> set good" for e
  proof -
    have same: "with_defaults ElectrodeSortingInfo (key_row r) = with_defaults ElectrodeSortingInfo (key_row e)"
      if "r \<in> set good"
        and "key_of ElectrodeSortingInfo (with_defaults ElectrodeSortingInfo (key_row r)) = key_of Electrode e"
      for r
    proof -
      from that stored_key have "key_of Electrode r = key_of Electrode e" by simp
      with good_wf [OF that(1)] good_wf [OF e] have "key_row r = key_row e"
        by (intro stored_key_row_determined) simp_all
      then show ?thesis by simp
    qed
    have "key_of Electrode e \<in>
        (\<lambda>r. key_of ElectrodeSortingInfo (with_defaults ElectrodeSortingInfo (key_row r))) ` set good"
      using e stored_key by force
    then show ?thesis
      unfolding table
      using lookup_fold_replace_row [of good ElectrodeSortingInfo
          "\<lambda>r. with_defaults ElectrodeSortingInfo (key_row r)" "key_of Electrode e"
          "with_defaults ElectrodeSortingInfo (key_row e)" "tables s ElectrodeSortingInfo"] same
      by (simp add: with_defaults_key_row)
  qed
  have kept: "lookup ElectrodeSortingInfo k (tables s' ElectrodeSortingInfo)
      = lookup ElectrodeSortingInfo k (tables s ElectrodeSortingInfo)"
    if k: "k \<notin> key_of Electrode ` set good" for k
  proof -
    have none: "k \<notin> (\<lambda>r. key_of ElectrodeSortingInfo (with_defaults ElectrodeSortingInfo (key_row r))) ` set good"
      using k stored_key by force
    have "\<And>r. r \<in> set good \<Longrightarrow>
        key_of ElectrodeSortingInfo (with_defaults ElectrodeSortingInfo (key_row r)) = k \<Longrightarrow>
        with_defaults ElectrodeSortingInfo (key_row r) = []"
      using none by blast
    from lookup_fold_replace_row [of good ElectrodeSortingInfo
          "\<lambda>r. with_defaults ElectrodeSortingInfo (key_row r)" k "[]" "tables s ElectrodeSortingInfo", OF this]
      none
    show ?thesis unfolding table by simp
  qed
  have bad: "lookup ElectrodeSortingInfo (key_of Electrode e) (tables s' ElectrodeSortingInfo)
      = lookup ElectrodeSortingInfo (key_of Electrode e) (tables s ElectrodeSortingInfo)"
    if d: "distinct (map (key_of Electrode) (tables s Electrode))"
      and e: "e \<in> set (tables s Electrode)" "map_of e ''bad_channel'' = Some (StrV ''True'')" for e
  proof (rule kept)
    from d have inj: "inj_on (key_of Electrode) (set (tables s Electrode))"
      by (simp add: distinct_map)
    show "key_of Electrode e \<notin> key_of Electrode ` set good"
    proof
      assume "key_of Electrode e \<in> key_of Electrode ` set good"
      then obtain e' where e': "e' \<in> set good" "key_of Electrode e = key_of Electrode e'" by blast
      from e'(1) have "e' \<in> set (tables s Electrode)" by (simp add: good_def)
      with inj e(1) e'(2) have "e = e'" by (auto dest: inj_onD)
      with e'(1) e(2) show False by (simp add: good_def)
    qed
  qed
  have uniq: "distinct (map (key_of ElectrodeSortingInfo) (tables s' ElectrodeSortingInfo))"
    if "distinct (map (key_of ElectrodeSortingInfo) (tables s ElectrodeSortingInfo))"
    unfolding table using that by (rule distinct_fold_replace_row)
  have others: "tables s' t = tables s t" if "t \<noteq> ElectrodeSortingInfo" for t
    using that by (simp add: s'_def)
  from good_def run evs found kept bad uniq others show ?thesis by blast
qed

theorem initialize_default_rows_witness:
  "fst (initialize ''f'' example_db) = Inr () \<and>
   events_of example_db (snd (initialize ''f'' example_db)) =
     [Fetch Electrode (good_electrodes ''f'')
        [electrode_row ''f'' 0 ''0'' ''False'', electrode_row ''f'' 1 ''1'' ''False''],
      Insert ElectrodeSortingInfo
        [[(''nwb_file_name'', StrV ''f''), (''electrode_id'', IntV 0)],
         [(''nwb_file_name'', StrV ''f''), (''electrode_id'', IntV 1)]] Replace] \<and>
   lookup ElectrodeSortingInfo [Some (StrV ''f''), Some (IntV 1)]
       (tables (snd (initialize ''f'' example_db)) ElectrodeSortingInfo)
     = Some (sorting_row ''f'' 1 (- 1) (- 1)) \<and>
   lookup ElectrodeSortingInfo [Some (StrV ''f''), Some (IntV 2)]
       (tables (snd (initialize ''f'' example_db)) ElectrodeSortingInfo) = None"
proof -
  have wf: "\<forall>e\<in>set (tables example_db Electrode).
      map_of e ''nwb_file_name'' \<noteq> None \<and> map_of e ''electrode_id'' \<noteq> None \<and>
      map_of e ''bad_channel'' \<noteq> None"
    by (simp add: example_db_def electrode_row_def)
  have good: "filter (\<lambda>e. map_of e ''nwb_file_name'' = Some (StrV ''f'') \<and>
        map_of e ''bad_channel'' = Some (StrV ''False'')) (tables example_db Electrode) =
      [electrode_row ''f'' 0 ''0'' ''False'', electrode_row ''f'' 1 ''1'' ''False'']"
    by (simp add: example_db_def electrode_row_def)
  have d: "distinct (map (key_of Electrode) (tables example_db Electrode))"
    by (simp add: example_db_def electrode_row_def key_of_def)
  have before: "lookup ElectrodeSortingInfo (key_of Electrode (electrode_row ''f'' 2 ''1'' ''True''))
      (tables example_db ElectrodeSortingInfo) = None"
    by (simp add: example_db_def electrode_row_def sorting_row_def key_of_def lookup_def)
  from initialize_default_rows [OF wf, of "''f''"] obtain s' where
    run: "initialize ''f'' example_db = (Inr (), s')" and
    evs: "events_of example_db s' =
       [Fetch Electrode (good_electrodes ''f'')
          [electrode_row ''f'' 0 ''0'' ''False'', electrode_row ''f'' 1 ''1'' ''False''],
        Insert ElectrodeSortingInfo
          (map key_row [electrode_row ''f'' 0 ''0'' ''False'', electrode_row ''f'' 1 ''1'' ''False'']) Replace]" and
    found: "\<forall>e\<in>set [electrode_row ''f'' 0 ''0'' ''False'', electrode_row ''f'' 1 ''1'' ''False''].
       lookup ElectrodeSortingInfo (key_of Electrode e) (tables s' ElectrodeSortingInfo)
       = Some (key_row e @ [(''sort_group'', IntV (- 1)), (''reference_electrode'', IntV (- 1))])" and
    bad: "distinct (map (key_of Electrode) (tables example_db Electrode)) \<longrightarrow>
       (\<forall>e\<in>set (tables example_db Electrode). map_of e ''bad_channel'' = Some (StrV ''True'') \<longrightarrow>
           lookup ElectrodeSortingInfo (key_of Electrode e) (tables s' ElectrodeSortingInfo)
           = lookup ElectrodeSortingInfo (key_of Electrode e) (tables example_db ElectrodeSortingInfo))"
    unfolding good by blast
  from found have "lookup ElectrodeSortingInfo (key_of Electrode (electrode_row ''f'' 1 ''1'' ''False''))
      (tables s' ElectrodeSortingInfo)
      = Some (key_row (electrode_row ''f'' 1 ''1'' ''False'') @
          [(''sort_group'', IntV (- 1)), (''reference_electrode'', IntV (- 1))])"
    by simp
  then have l1: "lookup ElectrodeSortingInfo [Some (StrV ''f''), Some (IntV 1)] (tables s' ElectrodeSortingInfo)
      = Some (sorting_row ''f'' 1 (- 1) (- 1))"
    by (simp add: electrode_row_def key_of_def key_row_def sorting_row_def)
  have "electrode_row ''f'' 2 ''1'' ''True'' \<in> set (tables example_db Electrode)"
    by (simp add: example_db_def)
  moreover have "map_of (electrode_row ''f'' 2 ''1'' ''True'') ''bad_channel'' = Some (StrV ''True'')"
    by (simp add: electrode_row_def)
  ultimately have "lookup ElectrodeSortingInfo (key_of Electrode (electrode_row ''f'' 2 ''1'' ''True''))
      (tables s' ElectrodeSortingInfo) = None"
    using bad d before by auto
  then have l2: "lookup ElectrodeSortingInfo [Some (StrV ''f''), Some (IntV 2)] (tables s' ElectrodeSortingInfo) = None"
    by (simp add: electrode_row_def key_of_def)
  from run evs l1 l2 show ?thesis
    by (simp add: key_row_def electrode_row_def)
qed

section \<open>Claims about the LFP electrodes\<close>



section \<open>Claims about the import of units\<close>



section \<open>Claims about the LFP\<close>

text \<open>
  C7 (the code diverges). \<open>LFP.make\<close> in a store that holds no filter of the name
  \<^verbatim>\<open>LFP 0-400 Hz\<close> at any sampling rate that the call can ask for: the call does not return.
  It ends with an error raised by one of its reads (at the latest by \<^verbatim>\<open>filter[0]\<close> on the empty
  list of filters, which comes before the check of the coefficients and its message), and
  up to there it has only read: no message is printed, no file is created, no row is
  inserted, and the tables are as before.
\<close>

theorem LFP_make_no_filter_raises:
  assumes "\<And>rate. rate \<in> set (requested_rates key s) \<Longrightarrow> matching_filters rate s = []"
  shows "\<exists>e evs. LFP_make files key s = (Inl e, s\<lparr>events := events s @ evs\<rparr>) \<and> only_reads evs"
  using assms by (rule LFP_make_without_filter)

theorem LFP_make_no_filter_raises_witness:
  "requested_rates [(''nwb_file_name'', StrV ''f'')] example_raw_db' = [30000] \<and>
   matching_filters 30000 example_raw_db' = [] \<and>
   matching_filters 20000 example_raw_db' \<noteq> [] \<and>
   fst (LFP_make example_files [(''nwb_file_name'', StrV ''f'')] example_raw_db') = Inl IndexError \<and>
   fst (LFP_make example_files [(''nwb_file_name'', StrV ''f'')] example_raw_db) =
     Inl (Missing_field ''interval_name'') \<and>
   (\<exists>e evs. LFP_make example_files [(''nwb_file_name'', StrV ''f'')] example_raw_db' =
      (Inl e, example_raw_db'\<lparr>events := events example_raw_db' @ evs\<rparr>) \<and> only_reads evs)"
proof -
  have rates: "requested_rates [(''nwb_file_name'', StrV ''f'')] example_raw_db' = [30000]"
    by (simp add: requested_rates_def example_raw_db'_def example_raw_db_def raw_row_def
        matches_def field_def np_round_def)
  have none: "matching_filters 30000 example_raw_db' = []"
    by (simp add: matching_filters_def example_raw_db'_def example_raw_db_def matches_def)
  have some: "matching_filters 20000 example_raw_db' \<noteq> []"
    by (simp add: matching_filters_def example_raw_db'_def example_raw_db_def matches_def)
  have run': "fst (LFP_make example_files [(''nwb_file_name'', StrV ''f'')] example_raw_db') = Inl IndexError"
    by (simp add: LFP_make_def lfp_filter_def nwb_object_def fetch1_def fetch_def file_event_def
        example_raw_db'_def example_raw_db_def raw_row_def matches_def field_def np_round_def
        Let_def split_def)
  have run: "fst (LFP_make example_files [(''nwb_file_name'', StrV ''f'')] example_raw_db) =
      Inl (Missing_field ''interval_name'')"
    by (simp add: LFP_make_def lfp_filter_def nwb_object_def fetch1_def fetch_def file_event_def
        example_raw_db_def raw_row_def matches_def field_def np_round_def
        Let_def split_def)
  from rates none
  have "\<exists>e evs. LFP_make example_files [(''nwb_file_name'', StrV ''f'')] example_raw_db' =
      (Inl e, example_raw_db'\<lparr>events := events example_raw_db' @ evs\<rparr>) \<and> only_reads evs"
    using LFP_make_no_filter_raises [of "[(''nwb_file_name'', StrV ''f'')]" example_raw_db' example_files]
    by simp
  with rates none some run' run show ?thesis by blast
qed

end
